theory Spec2Isabelle
  imports Main
begin

section \<open>The memo\_js wrapper (src/memo\_js/src/index.ts)\<close>

text \<open>
  The file is a thin TypeScript class \<^verbatim>\<open>WorkTree\<close> in front of a dispatcher
  (\<^verbatim>\<open>server.request(req)\<close>, a native module that is not part of the file). Every
  method builds one request object, sends it through \<^verbatim>\<open>request\<close> and projects
  one member out of the response. The model keeps that shape: requests and responses are
  tagged objects, the dispatcher is a parameter, the requests sent so far are part of the
  state, and a thrown exception is the left summand of the result.
\<close>

subsection \<open>JavaScript values\<close>

text \<open>
  The values that cross the wrapper. Numbers are the integer-valued ones (tree handles,
  replica ids).
\<close>

datatype jsval =
    Undefined
  | Null
  | JBool bool
  | JNum int
  | JStr string
  | JArr "jsval list"
  | JObj "(string \<times> jsval) list"

text \<open>\<^verbatim>\<open>if (v)\<close>, \<^verbatim>\<open>!v\<close>, \<^verbatim>\<open>v || d\<close>: the falsy values are
  \<^verbatim>\<open>undefined\<close>, \<^verbatim>\<open>null\<close>, \<^verbatim>\<open>false\<close>, \<^verbatim>\<open>0\<close> and the empty string; every array
  and object is truthy.\<close>

fun truthy :: "jsval \<Rightarrow> bool" where
  "truthy Undefined = False"
| "truthy Null = False"
| "truthy (JBool b) = b"
| "truthy (JNum n) = (n \<noteq> 0)"
| "truthy (JStr s) = (s \<noteq> [])"
| "truthy (JArr xs) = True"
| "truthy (JObj kvs) = True"

definition js_or :: "jsval \<Rightarrow> jsval \<Rightarrow> jsval" where
  "js_or a b = (if truthy a then a else b)"

text \<open>\<^verbatim>\<open>o.k\<close> on a value: a member that is not there reads as \<^verbatim>\<open>undefined\<close>.\<close>

fun js_get :: "jsval \<Rightarrow> string \<Rightarrow> jsval" where
  "js_get (JObj kvs) k = (case map_of kvs k of Some v \<Rightarrow> v | None \<Rightarrow> Undefined)"
| "js_get v k = Undefined"

subsection \<open>Requests, responses and the dispatcher\<close>

text \<open>
  A request or response is an object with a \<^verbatim>\<open>type\<close> tag (a string) and named
  members, as the object literals of the source have it:
  \<^verbatim>\<open>{ type: "Rename", tree_id: this.id, file_id: fileId, ... }\<close>. The dispatcher
  answers every request with such an object; a member that a response does not have reads
  as \<^verbatim>\<open>undefined\<close>.
\<close>

record msg =
  type :: string
  props :: "(string \<times> jsval) list"

definition get :: "msg \<Rightarrow> string \<Rightarrow> jsval" where
  "get m k = (case map_of (props m) k of Some v \<Rightarrow> v | None \<Rightarrow> Undefined)"

definition has_prop :: "msg \<Rightarrow> string \<Rightarrow> bool" where
  "has_prop m k = (k \<in> set (map fst (props m)))"

text \<open>
  \<^verbatim>\<open>new Error(message)\<close>; a \<^verbatim>\<open>ReferenceError\<close> for an identifier that is bound
  nowhere; \<^verbatim>\<open>Rejected\<close> for a promise of the \<^verbatim>\<open>IoProvider\<close> that rejects.
\<close>

datatype error =
    Error jsval
  | ReferenceError string
  | Rejected jsval

text \<open>
  The dispatcher is outside the file: it is a parameter, a function from the requests it
  has received so far and the current request to its response. The process state holds
  the requests sent (in order) and the one piece of module state of the wrapper, the
  static field \<^verbatim>\<open>WorkTree.rootFileId\<close>.
\<close>

type_synonym server = "msg list \<Rightarrow> msg \<Rightarrow> msg"

record world =
  sent :: "msg list"
  rootFileId :: jsval

type_synonym 'a action = "world \<Rightarrow> (error + 'a) \<times> world"

text \<open>
  \<^verbatim>\<open>
  function request(req: any) {
    const response = server.request(req);
    if (response.type == "Error") {
      throw new Error(response.message);
    } else {
      return response;
    }
  }
  \<close>
\<close>

definition request :: "server \<Rightarrow> msg \<Rightarrow> msg action" where
  "request server req w =
     (let response = server (sent w) req;
          w' = w\<lparr>sent := sent w @ [req]\<rparr>
      in if type response = ''Error''
         then (Inl (Error (get response ''message'')), w')
         else (Inr response, w'))"

text \<open>\<^verbatim>\<open>request({...}).k\<close>: the member \<^verbatim>\<open>k\<close> of the response, when \<^verbatim>\<open>request\<close>
  returns one.\<close>

definition project :: "string \<Rightarrow> msg action \<Rightarrow> jsval action" where
  "project k m w =
     (case m w of
        (Inl e, w') \<Rightarrow> (Inl e, w')
      | (Inr response, w') \<Rightarrow> (Inr (get response k), w'))"

subsection \<open>The WorkTree class\<close>

type_synonym Oid = string

text \<open>
  \<^verbatim>\<open>
  export interface IoProvider {
    getBaseEntries(oid: Oid): AsyncIterator<ReadonlyArray<BaseEntry>>;
    getText(oid: Oid, path: string): Promise<string>;
  }
  \<close>
  The iterator is the list of the batches it yields; the promise is its outcome.
\<close>

record IoProvider =
  io_getBaseEntries :: "Oid \<Rightarrow> jsval list"
  io_getText :: "Oid \<Rightarrow> string \<Rightarrow> error + string"

text \<open>The members the constructor sets: \<^verbatim>\<open>this.replicaId\<close>, \<^verbatim>\<open>this.io\<close>,
  \<^verbatim>\<open>this.id\<close>.\<close>

record WorkTree =
  id' :: jsval
  replicaId :: int
  io :: IoProvider


text \<open>
  \<^verbatim>\<open>
  private constructor(replicaId: number, io: IoProvider) {
    if (replicaId <= 0) {
      throw new Error("Replica id must be positive");
    }
    this.replicaId = replicaId;
    this.io = io;
    this.id = request({ type: "CreateWorkTree", replica_id: replicaId }).tree_id;
  }
  \<close>
\<close>

definition constructor :: "server \<Rightarrow> int \<Rightarrow> IoProvider \<Rightarrow> WorkTree action" where
  "constructor server replicaId' io' w =
     (if replicaId' \<le> 0
      then (Inl (Error (JStr ''Replica id must be positive'')), w)
      else (case project ''tree_id''
                   (request server
                      \<lparr>type = ''CreateWorkTree'', props = [(''replica_id'', JNum replicaId')]\<rparr>) w of
              (Inl e, w') \<Rightarrow> (Inl e, w')
            | (Inr tree_id, w') \<Rightarrow>
                (Inr \<lparr>id' = tree_id, replicaId = replicaId', io = io'\<rparr>, w')))"

text \<open>The methods that are one request and one projection each.\<close>

definition getVersion :: "server \<Rightarrow> 'a WorkTree_scheme \<Rightarrow> jsval action" where
  "getVersion server this =
     project ''version'' (request server \<lparr>type = ''GetVersion'', props = [(''tree_id'', id' this)]\<rparr>)"

definition appendBaseEntries :: "server \<Rightarrow> 'a WorkTree_scheme \<Rightarrow> jsval \<Rightarrow> jsval action" where
  "appendBaseEntries server this baseEntries =
     project ''operations''
       (request server
          \<lparr>type = ''AppendBaseEntries'',
           props = [(''tree_id'', id' this), (''entries'', baseEntries)]\<rparr>)"

definition applyOps :: "server \<Rightarrow> 'a WorkTree_scheme \<Rightarrow> jsval \<Rightarrow> jsval action" where
  "applyOps server this operations =
     project ''operations''
       (request server
          \<lparr>type = ''ApplyOperations'',
           props = [(''tree_id'', id' this), (''operations'', operations)]\<rparr>)"

text \<open>
  \<^verbatim>\<open>
  newTextFile(): { fileId: FileId; operation: Operation } {
    const { file_id, operation } = request({ type: "NewTextFile", tree_id: this.id });
    return { fileId: file_id, operation };
  }
  \<close>
\<close>

definition newTextFile_request :: "'a WorkTree_scheme \<Rightarrow> msg" where
  "newTextFile_request this = \<lparr>type = ''NewTextFile'', props = [(''tree_id'', id' this)]\<rparr>"

definition newTextFile :: "server \<Rightarrow> 'a WorkTree_scheme \<Rightarrow> (jsval \<times> jsval) action" where
  "newTextFile server this w =
     (case request server (newTextFile_request this) w of
        (Inl e, w') \<Rightarrow> (Inl e, w')
      | (Inr response, w') \<Rightarrow> (Inr (get response ''file_id'', get response ''operation''), w'))"




definition fileIdForPath :: "server \<Rightarrow> 'a WorkTree_scheme \<Rightarrow> string \<Rightarrow> jsval action" where
  "fileIdForPath server this path =
     project ''file_id''
       (request server
          \<lparr>type = ''FileIdForPath'', props = [(''tree_id'', id' this), (''path'', JStr path)]\<rparr>)"

definition pathForFileId :: "server \<Rightarrow> 'a WorkTree_scheme \<Rightarrow> jsval \<Rightarrow> jsval action" where
  "pathForFileId server this fileId =
     project ''path''
       (request server
          \<lparr>type = ''PathForFileId'', props = [(''tree_id'', id' this), (''file_id'', fileId)]\<rparr>)"

text \<open>
  \<^verbatim>\<open>
  entries(options?: { showDeleted?: boolean; descendInto?: ReadonlyArray<FileId> }) {
    let showDeleted, descendInto;
    if (options) {
      showDeleted = options.showDeleted || false;
      descendInto = options.descendInto || null;
    } else {
      showDeleted = false;
      descendInto = null;
    }
    return request({ type: "Entries", tree_id: this.id,
                     show_deleted: showDeleted, descend_into: descendInto }).entries;
  }
  \<close>
  An omitted argument is \<^verbatim>\<open>undefined\<close>.
\<close>

definition entries_request :: "'a WorkTree_scheme \<Rightarrow> jsval \<Rightarrow> msg" where
  "entries_request this options =
     (let (showDeleted, descendInto) =
            (if truthy options
             then (js_or (js_get options ''showDeleted'') (JBool False),
                   js_or (js_get options ''descendInto'') Null)
             else (JBool False, Null))
      in \<lparr>type = ''Entries'',
          props = [(''tree_id'', id' this), (''show_deleted'', showDeleted),
                   (''descend_into'', descendInto)]\<rparr>)"

definition entries :: "server \<Rightarrow> 'a WorkTree_scheme \<Rightarrow> jsval \<Rightarrow> jsval action" where
  "entries server this options =
     project ''entries'' (request server (entries_request this options))"

definition openTextFile ::
  "server \<Rightarrow> 'a WorkTree_scheme \<Rightarrow> jsval \<Rightarrow> string \<Rightarrow> jsval action" where
  "openTextFile server this fileId baseText =
     project ''buffer_id''
       (request server
          \<lparr>type = ''OpenTextFile'',
           props = [(''tree_id'', id' this), (''file_id'', fileId),
                    (''base_text'', JStr baseText)]\<rparr>)"

definition getText :: "server \<Rightarrow> 'a WorkTree_scheme \<Rightarrow> jsval \<Rightarrow> jsval action" where
  "getText server this bufferId =
     project ''text''
       (request server
          \<lparr>type = ''GetText'', props = [(''tree_id'', id' this), (''buffer_id'', bufferId)]\<rparr>)"


definition changesSince :: "server \<Rightarrow> 'a WorkTree_scheme \<Rightarrow> jsval \<Rightarrow> jsval \<Rightarrow> jsval action" where
  "changesSince server this bufferId version =
     project ''changes''
       (request server
          \<lparr>type = ''ChangesSince'',
           props = [(''tree_id'', id' this), (''buffer_id'', bufferId), (''version'', version)]\<rparr>)"

subsection \<open>init and reset\<close>

text \<open>
  The reset counter is a JavaScript number, a double. The values it can take here are
  \<^verbatim>\<open>NaN\<close> and the integers; a double holds every integer up to \<open>2^53\<close> in size
  exactly, and above that only every second, fourth, ... one.
\<close>

datatype jsnum = NaN | Whole int

text \<open>
  \<open>n + 1\<close> as a double computes it, for an integer \<open>n\<close> that a double holds: exact up
  to \<open>2^53\<close>; between \<open>2^53\<close> and \<open>2^54\<close> the doubles are the even integers and
  \<open>n + 1\<close> lies halfway between two of them, so it is rounded to the one that is a
  multiple of 4 (ties to even); beyond, \<open>n + 1\<close> is rounded back to \<open>n\<close>.
\<close>

definition double_succ :: "int \<Rightarrow> int" where
  "double_succ n =
     (if - (2 ^ 53) \<le> n + 1 \<and> n + 1 \<le> 2 ^ 53 then n + 1
      else if - (2 ^ 54) \<le> n \<and> n \<le> 2 ^ 54 then (if n mod 4 = 0 then n else n + 2)
      else n)"

text \<open>
  \<^verbatim>\<open>++x\<close> on a member that is a number or unset: an unset member reads as
  \<^verbatim>\<open>undefined\<close>, which \<^verbatim>\<open>++\<close> converts to \<^verbatim>\<open>NaN\<close>, and
  \<^verbatim>\<open>NaN + 1\<close> is \<^verbatim>\<open>NaN\<close>.
\<close>

fun to_number :: "jsnum option \<Rightarrow> jsnum" where
  "to_number None = NaN"
| "to_number (Some x) = x"

fun pre_incr :: "jsnum \<Rightarrow> jsnum" where
  "pre_incr NaN = NaN"
| "pre_incr (Whole n) = Whole (double_succ n)"

text \<open>\<^verbatim>\<open>a == m\<close> for a number \<^verbatim>\<open>a\<close> and a member \<^verbatim>\<open>m\<close> that is a number or
  unset, and \<^verbatim>\<open>a < b\<close> on numbers: every comparison with \<^verbatim>\<open>NaN\<close> is false, and
  so is a number \<^verbatim>\<open>== undefined\<close>.\<close>

fun js_eq :: "jsnum \<Rightarrow> jsnum option \<Rightarrow> bool" where
  "js_eq (Whole a) (Some (Whole b)) = (a = b)"
| "js_eq a m = False"

fun js_less :: "jsnum \<Rightarrow> jsnum \<Rightarrow> bool" where
  "js_less (Whole a) (Whole b) = (a < b)"
| "js_less a b = False"

text \<open>
  \<^verbatim>\<open>reset\<close> reads \<^verbatim>\<open>this.nextResetId\<close> and \<^verbatim>\<open>this.tree\<close>. The class
  declares neither and its constructor sets neither, so the receiver of \<^verbatim>\<open>reset\<close>
  is a \<^verbatim>\<open>WorkTree\<close> extended with the two members. The counter is a number, or unset
  (\<open>None\<close>) as the constructor leaves it; nothing in the file but \<^verbatim>\<open>reset\<close>
  itself ever assigns it. The old tree is an opaque object that only the methods the file
  does not define look into.
\<close>

record Orchestrator = WorkTree +
  nextResetId :: "jsnum option"
  tree :: jsval

text \<open>The receiver as \<^verbatim>\<open>new WorkTree(replicaId, io)\<close> leaves it: the two members are
  unset.\<close>

definition constructed :: "WorkTree \<Rightarrow> Orchestrator" where
  "constructed t =
     \<lparr>id' = id' t, replicaId = replicaId t, io = io t, nextResetId = None, tree = Undefined\<rparr>"

text \<open>
  What \<^verbatim>\<open>init\<close> and \<^verbatim>\<open>reset\<close> use and the file does not define is a parameter:
  \<^item> \<^verbatim>\<open>head\<close>: the identifier \<^verbatim>\<open>head\<close> as \<^verbatim>\<open>reset\<close> sees it. It is not a
    parameter or a local of \<^verbatim>\<open>reset\<close> (the parameter is \<^verbatim>\<open>newHead\<close>) and the
    module binds no such name, so it resolves in the enclosing scope: \<open>None\<close> when
    nothing binds it there (reading it throws a \<^verbatim>\<open>ReferenceError\<close>), \<open>Some h\<close>
    when something does.
  \<^item> \<^verbatim>\<open>startEpoch(head, oldTree?)\<close>, \<^verbatim>\<open>hasPath(path)\<close>: methods called on a
    \<^verbatim>\<open>WorkTree\<close>; any action on the process state, which may throw.
  \<^item> \<^verbatim>\<open>getUnsavedPaths()\<close>: called on \<^verbatim>\<open>this.tree\<close> once per pass of the
    loop of \<^verbatim>\<open>reset\<close>; it returns the paths the pass iterates over, a list. The
    unsaved paths can change while \<^verbatim>\<open>reset\<close> awaits, so the result depends on
    which call it is (the number of the pass) as well.
\<close>

record outside =
  head :: "Oid option"
  startEpoch :: "WorkTree \<Rightarrow> Oid \<Rightarrow> jsval option \<Rightarrow> jsval action"
  hasPath :: "WorkTree \<Rightarrow> string \<Rightarrow> bool action"
  getUnsavedPaths :: "jsval \<Rightarrow> nat \<Rightarrow> (string list) action"

text \<open>
  \<^verbatim>\<open>for (const x of xs) body\<close> and \<^verbatim>\<open>for await (const x of xs) body\<close>: the body
  runs on each element in order, and a throw leaves the loop with the state reached.
\<close>

fun for_of :: "('a \<Rightarrow> 'st \<Rightarrow> error option \<times> 'st) \<Rightarrow> 'a list \<Rightarrow> 'st \<Rightarrow> error option \<times> 'st" where
  "for_of body [] s = (None, s)"
| "for_of body (x # xs) s =
     (case body x s of
        (Some e, s') \<Rightarrow> (Some e, s')
      | (None, s') \<Rightarrow> for_of body xs s')"

text \<open>An expression statement: the value is dropped.\<close>

definition stmt :: "'a action \<Rightarrow> world \<Rightarrow> error option \<times> world" where
  "stmt m w = (case m w of (Inl e, w') \<Rightarrow> (Some e, w') | (Inr x, w') \<Rightarrow> (None, w'))"

text \<open>
  \<^verbatim>\<open>
  async init(head: Oid): AsyncIterator<ReadonlyArray<Operation>> {
    yield this.startEpoch(head);
    for await (const entries of this.io.getBaseEntries(head)) {
      yield this.appendBaseEntries(entries);
    }
  }
  \<close>
  Here \<^verbatim>\<open>head\<close> is the parameter. The result is the list of the values yielded, and the
  error that ended the generator if one did.
\<close>

definition init ::
  "outside \<Rightarrow> server \<Rightarrow> WorkTree \<Rightarrow> Oid \<Rightarrow> world \<Rightarrow> error option \<times> jsval list \<times> world" where
  "init out server this head' w =
     (case startEpoch out this head' None w of
        (Inl e, w1) \<Rightarrow> (Some e, [], w1)
      | (Inr ops, w1) \<Rightarrow>
          for_of (\<lambda>entries (yields, w2).
                    case appendBaseEntries server this entries w2 of
                      (Inl e, w3) \<Rightarrow> (Some e, yields, w3)
                    | (Inr ops', w3) \<Rightarrow> (None, yields @ [ops'], w3))
            (io_getBaseEntries (io this) head') ([ops], w1))"

text \<open>
  \<^verbatim>\<open>
  async reset(newHead: Oid): Promise<ReadonlyArray<Operation>> {
    const resetId = ++this.nextResetId;

    const newTree = new WorkTree(this.replicaId, this.io);
    for await (const entries of this.io.getBaseEntries(head)) {
      newTree.appendBaseEntries(entries);
    }

    const processedPaths = new Set();
    while (true) {
      let yielded = false;
      for (const path of this.tree.getUnsavedPaths()) {
        if (!processedPaths.has(path) && newTree.hasPath(path)) {
          yielded = true;
          newTree.openTextFile(
            newTree.fileIdForPath(path),
            await this.io.getText(newHead, path)
          );
        }
        processedPaths.add(path);
      }
      if (!yielded) break;
    }

    if (resetId == this.nextResetId) {
      let ops = newTree.startEpoch(newHead, this.tree);
      this.id = newTree.id;
      return ops;
    } else {
      return [];
    }
  }
  \<close>
  The function runs in three stretches. The first line runs when \<^verbatim>\<open>reset\<close> is called;
  the middle builds \<^verbatim>\<open>newTree\<close> and awaits the provider, so other code (another
  \<^verbatim>\<open>reset\<close> too) can run in between; the final \<^verbatim>\<open>if\<close> runs after the last
  await, without interruption.
\<close>

definition reset_begin :: "Orchestrator \<Rightarrow> jsnum \<times> Orchestrator" where
  "reset_begin this =
     (let resetId = pre_incr (to_number (nextResetId this))
      in (resetId, this\<lparr>nextResetId := Some resetId\<rparr>))"

text \<open>
  The \<^verbatim>\<open>OpenTextFile\<close> requests among the requests sent so far: what
  \<^verbatim>\<open>openTextFile\<close> has done, as the dispatcher saw it.
\<close>

definition opens :: "world \<Rightarrow> msg list" where
  "opens w = filter (\<lambda>m. type m = ''OpenTextFile'') (sent w)"

text \<open>
  The variables of the loop: \<^verbatim>\<open>processedPaths\<close> and \<^verbatim>\<open>yielded\<close>, and two
  records of what happened that the code does not keep: \<open>opened\<close>, the paths for which
  \<^verbatim>\<open>openTextFile\<close> was called, in order, and \<open>passes\<close>, for each completed pass
  the value of \<^verbatim>\<open>yielded\<close> at its end and the number of \<^verbatim>\<open>OpenTextFile\<close>
  requests sent by then.
\<close>

record loop_vars =
  processedPaths :: "string set"
  yielded :: bool
  opened :: "string list"
  passes :: "(bool \<times> nat) list"

definition loop_start :: loop_vars where
  "loop_start = \<lparr>processedPaths = {}, yielded = False, opened = [], passes = []\<rparr>"

text \<open>The body of the inner \<^verbatim>\<open>for\<close>, for one \<^verbatim>\<open>path\<close>.\<close>

definition reset_path ::
  "outside \<Rightarrow> server \<Rightarrow> IoProvider \<Rightarrow> WorkTree \<Rightarrow> Oid \<Rightarrow> string \<Rightarrow> loop_vars \<times> world
     \<Rightarrow> error option \<times> loop_vars \<times> world" where
  "reset_path out server io' newTree newHead path = (\<lambda>(v, w).
     if path \<in> processedPaths v
     then (None, v\<lparr>processedPaths := insert path (processedPaths v)\<rparr>, w)
     else
       (case hasPath out newTree path w of
          (Inl e, w1) \<Rightarrow> (Some e, v, w1)
        | (Inr False, w1) \<Rightarrow> (None, v\<lparr>processedPaths := insert path (processedPaths v)\<rparr>, w1)
        | (Inr True, w1) \<Rightarrow>
            (case fileIdForPath server newTree path w1 of
               (Inl e, w2) \<Rightarrow> (Some e, v\<lparr>yielded := True\<rparr>, w2)
             | (Inr fileId, w2) \<Rightarrow>
                 (case io_getText io' newHead path of
                    Inl e \<Rightarrow> (Some e, v\<lparr>yielded := True\<rparr>, w2)
                  | Inr baseText \<Rightarrow>
                      (case openTextFile server newTree fileId baseText w2 of
                         (Inl e, w3) \<Rightarrow>
                           (Some e, v\<lparr>yielded := True, opened := opened v @ [path]\<rparr>, w3)
                       | (Inr bufferId, w3) \<Rightarrow>
                           (None,
                            v\<lparr>yielded := True, opened := opened v @ [path],
                              processedPaths := insert path (processedPaths v)\<rparr>,
                            w3))))))"

text \<open>
  The \<^verbatim>\<open>while (true)\<close> loop, from pass \<open>k\<close> on. Nothing in the code bounds the
  number of passes, so the loop is a partial function: \<open>None\<close> is a loop that never
  exits, \<open>Some\<close> an exit (by \<^verbatim>\<open>break\<close> or by a throw).
\<close>

partial_function (option) reset_loop ::
  "outside \<Rightarrow> server \<Rightarrow> Orchestrator \<Rightarrow> WorkTree \<Rightarrow> Oid \<Rightarrow> nat \<Rightarrow> loop_vars \<Rightarrow> world
     \<Rightarrow> (error option \<times> loop_vars \<times> world) option" where
  "reset_loop out server this newTree newHead k v w =
     (case getUnsavedPaths out (tree this) k w of
        (Inl e, w1) \<Rightarrow> Some (Some e, v\<lparr>yielded := False\<rparr>, w1)
      | (Inr paths, w1) \<Rightarrow>
          (case for_of (reset_path out server (io this) newTree newHead) paths
                  (v\<lparr>yielded := False\<rparr>, w1) of
             (Some e, v', w2) \<Rightarrow> Some (Some e, v', w2)
           | (None, v', w2) \<Rightarrow>
               if \<not> yielded v'
               then Some (None, v'\<lparr>passes := passes v' @ [(False, length (opens w2))]\<rparr>, w2)
               else reset_loop out server this newTree newHead (Suc k)
                      (v'\<lparr>passes := passes v' @ [(True, length (opens w2))]\<rparr>) w2))"

text \<open>The middle stretch: the new tree, its base entries, the loop.\<close>

definition reset_build ::
  "outside \<Rightarrow> server \<Rightarrow> Orchestrator \<Rightarrow> Oid \<Rightarrow> world \<Rightarrow> ((error + WorkTree) \<times> world) option" where
  "reset_build out server this newHead w =
     (case constructor server (replicaId this) (io this) w of
        (Inl e, w1) \<Rightarrow> Some (Inl e, w1)
      | (Inr newTree, w1) \<Rightarrow>
          (case head out of
             None \<Rightarrow> Some (Inl (ReferenceError ''head''), w1)
           | Some h \<Rightarrow>
               (case for_of (\<lambda>entries. stmt (appendBaseEntries server newTree entries))
                       (io_getBaseEntries (io this) h) w1 of
                  (Some e, w2) \<Rightarrow> Some (Inl e, w2)
                | (None, w2) \<Rightarrow>
                    (case reset_loop out server this newTree newHead 0 loop_start w2 of
                       None \<Rightarrow> None
                     | Some (Some e, v, w3) \<Rightarrow> Some (Inl e, w3)
                     | Some (None, v, w3) \<Rightarrow> Some (Inr newTree, w3)))))"

text \<open>The final \<^verbatim>\<open>if\<close>, for the invocation stamped \<open>resetId\<close>.\<close>

definition reset_finish ::
  "outside \<Rightarrow> jsnum \<Rightarrow> WorkTree \<Rightarrow> Oid \<Rightarrow> Orchestrator \<Rightarrow> world
     \<Rightarrow> (error + jsval) \<times> Orchestrator \<times> world" where
  "reset_finish out resetId newTree newHead this w =
     (if js_eq resetId (nextResetId this)
      then (case startEpoch out newTree newHead (Some (tree this)) w of
              (Inl e, w') \<Rightarrow> (Inl e, this, w')
            | (Inr ops, w') \<Rightarrow> (Inr ops, this\<lparr>id' := id' newTree\<rparr>, w'))
      else (Inr (JArr []), this, w))"

text \<open>A \<^verbatim>\<open>reset\<close> during which nothing else runs.\<close>

definition reset ::
  "outside \<Rightarrow> server \<Rightarrow> Orchestrator \<Rightarrow> Oid \<Rightarrow> world
     \<Rightarrow> ((error + jsval) \<times> Orchestrator \<times> world) option" where
  "reset out server this newHead w =
     (case reset_begin this of
        (resetId, this1) \<Rightarrow>
          (case reset_build out server this1 newHead w of
             None \<Rightarrow> None
           | Some (Inl e, w1) \<Rightarrow> Some (Inl e, this1, w1)
           | Some (Inr newTree, w1) \<Rightarrow> Some (reset_finish out resetId newTree newHead this1 w1)))"

subsection \<open>Overlapping resets\<close>

text \<open>
  Several invocations of \<^verbatim>\<open>reset\<close> on one receiver, interleaved at their awaits. Only
  the first and the last stretch touch the receiver, so a schedule is a list of events:
  \<^item> \<open>Begin\<close>: a new invocation is called and runs its first line; invocations are
    numbered in the order they begin, from 0;
  \<^item> \<open>Finish i newTree newHead\<close>: invocation \<open>i\<close> has built \<open>newTree\<close> and
    runs its final \<^verbatim>\<open>if\<close>;
  \<^item> \<open>Meanwhile f\<close>: anything else that happens to the process state (the middle
    stretches of the invocations, other calls).
  The state of a run holds the receiver, the process state, the \<^verbatim>\<open>resetId\<close> of each
  invocation in the order they began, and what the finished invocations returned.
\<close>

datatype event =
    Begin
  | Finish nat WorkTree Oid
  | Meanwhile "world \<Rightarrow> world"

record run_state =
  orch :: Orchestrator
  wld :: world
  stamps :: "jsnum list"
  returned :: "(nat \<times> (error + jsval)) list"

fun step :: "outside \<Rightarrow> run_state \<Rightarrow> event \<Rightarrow> run_state" where
  "step out s Begin =
     (case reset_begin (orch s) of
        (resetId, this') \<Rightarrow> s\<lparr>orch := this', stamps := stamps s @ [resetId]\<rparr>)"
| "step out s (Finish i newTree newHead) =
     (if i < length (stamps s)
      then (case reset_finish out (stamps s ! i) newTree newHead (orch s) (wld s) of
              (r, this', w') \<Rightarrow> s\<lparr>orch := this', wld := w', returned := returned s @ [(i, r)]\<rparr>)
      else s)"
| "step out s (Meanwhile f) = s\<lparr>wld := f (wld s)\<rparr>"

definition run :: "outside \<Rightarrow> run_state \<Rightarrow> event list \<Rightarrow> run_state" where
  "run out s evs = foldl (step out) s evs"




subsection \<open>Calls of getRootFileId in one process\<close>




subsection \<open>A dispatcher and a provider for the examples\<close>

text \<open>
  A small dispatcher on which the theorems below are instantiated: it numbers tree handles
  by the requests it has seen, knows one root, and refuses what it does not know. Two
  more that answer in other ways: \<open>odd_server\<close> answers \<^verbatim>\<open>Remove\<close> with no
  \<^verbatim>\<open>operation\<close> member and everything else with a list of two, and
  \<open>empty_id_server\<close> knows the root under the empty id.
\<close>

definition example_server :: server where
  "example_server history req =
     (if type req = ''CreateWorkTree''
      then \<lparr>type = ''CreateWorkTree'', props = [(''tree_id'', JNum (int (length history)))]\<rparr>
      else if type req = ''GetRootFileId''
      then \<lparr>type = ''GetRootFileId'', props = [(''file_id'', JStr ''root'')]\<rparr>
      else if type req = ''NewTextFile''
      then \<lparr>type = ''NewTextFile'',
            props = [(''file_id'', JStr ''f1''), (''operation'', JStr ''op1'')]\<rparr>
      else if type req = ''CreateDirectory''
      then \<lparr>type = ''CreateDirectory'',
            props = [(''file_id'', JStr ''d1''), (''operation'', JStr ''op2'')]\<rparr>
      else if type req = ''Rename''
      then \<lparr>type = ''Rename'', props = [(''operation'', JStr ''op3'')]\<rparr>
      else if type req = ''Remove''
      then (if get req ''file_id'' = JStr ''missing''
            then \<lparr>type = ''Error'', props = [(''message'', JStr ''NotFound'')]\<rparr>
            else \<lparr>type = ''Remove'', props = [(''operation'', JStr ''op4'')]\<rparr>)
      else if type req = ''Edit''
      then \<lparr>type = ''Edit'', props = [(''operation'', JStr ''op5'')]\<rparr>
      else if type req = ''AppendBaseEntries''
      then \<lparr>type = ''AppendBaseEntries'', props = [(''operations'', JArr [])]\<rparr>
      else if type req = ''FileIdForPath''
      then \<lparr>type = ''FileIdForPath'', props = [(''file_id'', get req ''path'')]\<rparr>
      else if type req = ''OpenTextFile''
      then \<lparr>type = ''OpenTextFile'', props = [(''buffer_id'', JNum (int (length history)))]\<rparr>
      else if type req = ''Entries''
      then \<lparr>type = ''Entries'', props = [(''entries'', JArr [])]\<rparr>
      else \<lparr>type = ''Error'', props = [(''message'', JStr ''unsupported'')]\<rparr>)"



definition example_io :: IoProvider where
  "example_io =
     \<lparr>io_getBaseEntries =
        (\<lambda>oid. if oid = ''new'' then [JArr [JStr ''a.txt''], JArr [JStr ''b.txt'']]
               else if oid = ''old'' then [JArr [JStr ''z.txt'']] else []),
      io_getText = (\<lambda>oid path. Inr (oid @ '':'' @ path))\<rparr>"

definition start :: world where
  "start = \<lparr>sent = [], rootFileId = Undefined\<rparr>"

definition example_outside :: outside where
  "example_outside =
     \<lparr>head = Some ''old'',
      startEpoch = (\<lambda>newTree oid old w. (Inr (JArr [JStr (''epoch '' @ oid)]), w)),
      hasPath = (\<lambda>newTree path w. (Inr (path \<noteq> ''gone.txt''), w)),
      getUnsavedPaths =
        (\<lambda>tree k w. (Inr (if k = 0 then [''a.txt'', ''gone.txt''] else [''a.txt'', ''b.txt'']), w))\<rparr>"

definition example_this :: Orchestrator where
  "example_this =
     \<lparr>id' = JNum 0, replicaId = 1, io = example_io, nextResetId = None, tree = JObj []\<rparr>"

definition example_tree :: "int \<Rightarrow> WorkTree" where
  "example_tree n = \<lparr>id' = JNum n, replicaId = 1, io = example_io\<rparr>"

section \<open>The request wrapper\<close>

text \<open>
  C5. For every request routed through the dispatcher, \<^verbatim>\<open>request\<close> throws exactly
  when the response's \<^verbatim>\<open>type\<close> is \<^verbatim>\<open>"Error"\<close>; the thrown error is
  \<^verbatim>\<open>new Error(response.message)\<close>; otherwise the response is returned unchanged. In
  both cases the request has been sent, once, and the failure is the result of the very
  call that sent it. A method that reads a member \<^verbatim>\<open>k\<close> of the response throws in
  the same case and with the same error.
\<close>

theorem request_throws_iff_Error_response:
  "((\<exists>e. fst (request server req w) = Inl e) = (type (server (sent w) req) = ''Error''))
   \<and> (fst (request server req w) =
        (if type (server (sent w) req) = ''Error''
         then Inl (Error (get (server (sent w) req) ''message''))
         else Inr (server (sent w) req)))
   \<and> sent (snd (request server req w)) = sent w @ [req]
   \<and> rootFileId (snd (request server req w)) = rootFileId w
   \<and> (fst (project k (request server req) w) =
        (if type (server (sent w) req) = ''Error''
         then Inl (Error (get (server (sent w) req) ''message''))
         else Inr (get (server (sent w) req) k)))
   \<and> snd (project k (request server req) w) = snd (request server req w)"
  by (simp add: request_def project_def Let_def)

section \<open>The constructor\<close>

lemma project_request:
  "project k (request server req) w =
     (if type (server (sent w) req) = ''Error''
      then Inl (Error (get (server (sent w) req) ''message''))
      else Inr (get (server (sent w) req) k),
      w\<lparr>sent := sent w @ [req]\<rparr>)"
  by (simp add: request_def project_def Let_def)

text \<open>
  C4. With \<^verbatim>\<open>replicaId <= 0\<close> the constructor throws
  \<^verbatim>\<open>Error("Replica id must be positive")\<close> and the state is untouched: nothing has been
  sent. With \<^verbatim>\<open>replicaId > 0\<close> it sends exactly the request
  \<^verbatim>\<open>{type: "CreateWorkTree", replica_id: replicaId}\<close>, and the object it builds holds
  the \<^verbatim>\<open>tree_id\<close> of the response as its \<^verbatim>\<open>id\<close> (when the dispatcher answers
  \<^verbatim>\<open>Error\<close>, \<^verbatim>\<open>request\<close> throws and no object is built).
\<close>

theorem constructor_checks_replica_id:
  "(replicaId' \<le> 0 \<longrightarrow>
      constructor server replicaId' io' w
        = (Inl (Error (JStr ''Replica id must be positive'')), w))
   \<and> (0 < replicaId' \<longrightarrow>
        sent (snd (constructor server replicaId' io' w))
          = sent w @ [\<lparr>type = ''CreateWorkTree'', props = [(''replica_id'', JNum replicaId')]\<rparr>]
        \<and> fst (constructor server replicaId' io' w)
          = (let response =
                   server (sent w)
                     \<lparr>type = ''CreateWorkTree'', props = [(''replica_id'', JNum replicaId')]\<rparr>
             in if type response = ''Error''
                then Inl (Error (get response ''message''))
                else Inr \<lparr>id' = get response ''tree_id'', replicaId = replicaId', io = io'\<rparr>))"
  by (simp add: constructor_def project_request Let_def)

theorem constructor_checks_replica_id_witness:
  "(0::int) \<le> 0
   \<and> constructor example_server 0 example_io start
       = (Inl (Error (JStr ''Replica id must be positive'')), start)
   \<and> (0::int) < 7
   \<and> sent (snd (constructor example_server 7 example_io start))
       = [\<lparr>type = ''CreateWorkTree'', props = [(''replica_id'', JNum 7)]\<rparr>]
   \<and> fst (constructor example_server 7 example_io start)
       = Inr \<lparr>id' = JNum 0, replicaId = 7, io = example_io\<rparr>"
  using constructor_checks_replica_id [of 0 example_server example_io start]
        constructor_checks_replica_id [of 7 example_server example_io start]
  by (simp add: example_server_def start_def get_def)

section \<open>The mutating commands\<close>





text \<open>
  C7. The claim gives \<^verbatim>\<open>NewTextFile\<close> a parent \<^verbatim>\<open>FileId\<close> and a name as inputs.
  \<^verbatim>\<open>newTextFile()\<close> has no parameter, and the request it sends has one member next
  to its type, the tree handle: on the example tree the request carries neither
  \<^verbatim>\<open>parent_id\<close> nor \<^verbatim>\<open>name\<close>.
\<close>

theorem newTextFile_request_counterexample:
  "\<not> (has_prop (last (sent (snd (newTextFile example_server example_this start)))) ''parent_id''
       \<and> has_prop (last (sent (snd (newTextFile example_server example_this start)))) ''name'')"
  by (simp add: newTextFile_def newTextFile_request_def request_def example_server_def
      example_this_def start_def has_prop_def Let_def)

text \<open>
  C7, as amended. \<^verbatim>\<open>newTextFile\<close> takes the tree handle only: for every receiver it
  sends exactly \<^verbatim>\<open>{type: "NewTextFile", tree_id: this.id}\<close>, with no parent and no
  name, and it returns the \<^verbatim>\<open>file_id\<close> and the \<^verbatim>\<open>operation\<close> of the response
  (or throws, when the dispatcher answers \<^verbatim>\<open>Error\<close>).
\<close>

theorem newTextFile_sends_tree_handle_only:
  "sent (snd (newTextFile server this w))
     = sent w @ [\<lparr>type = ''NewTextFile'', props = [(''tree_id'', id' this)]\<rparr>]
   \<and> newTextFile_request this = \<lparr>type = ''NewTextFile'', props = [(''tree_id'', id' this)]\<rparr>
   \<and> \<not> has_prop (newTextFile_request this) ''parent_id''
   \<and> \<not> has_prop (newTextFile_request this) ''name''
   \<and> fst (newTextFile server this w) =
       (let response = server (sent w) (newTextFile_request this)
        in if type response = ''Error'' then Inl (Error (get response ''message''))
           else Inr (get response ''file_id'', get response ''operation''))"
  by (simp add: newTextFile_def newTextFile_request_def request_def has_prop_def Let_def)

section \<open>The defaults of entries\<close>

text \<open>
  C10. When \<^verbatim>\<open>options\<close> is omitted (or falsy), or \<^verbatim>\<open>options.showDeleted\<close> is
  absent or falsy, the request carries \<^verbatim>\<open>show_deleted: false\<close>; when \<^verbatim>\<open>options\<close>
  is omitted, or \<^verbatim>\<open>options.descendInto\<close> is absent or falsy, it carries
  \<^verbatim>\<open>descend_into: null\<close>. That request is the one \<^verbatim>\<open>entries\<close> sends.
\<close>

theorem entries_defaults:
  "((\<not> truthy options \<or> \<not> truthy (js_get options ''showDeleted'')) \<longrightarrow>
      get (entries_request this options) ''show_deleted'' = JBool False)
   \<and> ((\<not> truthy options \<or> \<not> truthy (js_get options ''descendInto'')) \<longrightarrow>
      get (entries_request this options) ''descend_into'' = Null)
   \<and> sent (snd (entries server this options w)) = sent w @ [entries_request this options]"
  by (simp add: entries_request_def entries_def project_request js_or_def get_def)

theorem entries_defaults_witness:
  "\<not> truthy Undefined
   \<and> get (entries_request example_this Undefined) ''show_deleted'' = JBool False
   \<and> get (entries_request example_this Undefined) ''descend_into'' = Null
   \<and> \<not> truthy (js_get (JObj [(''descendInto'', JArr [])]) ''showDeleted'')
   \<and> get (entries_request example_this (JObj [(''descendInto'', JArr [])])) ''show_deleted''
       = JBool False
   \<and> \<not> truthy (js_get (JObj [(''showDeleted'', JBool True)]) ''descendInto'')
   \<and> get (entries_request example_this (JObj [(''showDeleted'', JBool True)])) ''descend_into''
       = Null
   \<and> sent (snd (entries example_server example_this Undefined start))
       = [\<lparr>type = ''Entries'',
           props = [(''tree_id'', JNum 0), (''show_deleted'', JBool False),
                    (''descend_into'', Null)]\<rparr>]"
  using entries_defaults [of Undefined example_this example_server start]
        entries_defaults [of "JObj [(''descendInto'', JArr [])]" example_this example_server start]
        entries_defaults [of "JObj [(''showDeleted'', JBool True)]" example_this example_server start]
  by (simp add: entries_request_def example_this_def start_def js_or_def)

section \<open>The cache of getRootFileId\<close>







section \<open>reset: the base entries\<close>

text \<open>The two resets and the \<^verbatim>\<open>init\<close> of the example, run.\<close>

lemma reset_example_unbound:
  "reset (example_outside\<lparr>head := None\<rparr>) example_server example_this ''new'' start
     = Some (Inl (ReferenceError ''head''),
             example_this\<lparr>nextResetId := Some NaN\<rparr>,
             \<lparr>sent = [\<lparr>type = ''CreateWorkTree'', props = [(''replica_id'', JNum 1)]\<rparr>],
              rootFileId = Undefined\<rparr>)"
  by (simp add: reset_def reset_begin_def reset_build_def constructor_def project_request
      example_outside_def example_server_def example_this_def start_def get_def)

lemma reset_example:
  "reset example_outside example_server example_this ''new'' start
     = Some (Inr (JArr []),
             example_this\<lparr>nextResetId := Some NaN\<rparr>,
             \<lparr>sent =
                [\<lparr>type = ''CreateWorkTree'', props = [(''replica_id'', JNum 1)]\<rparr>,
                 \<lparr>type = ''AppendBaseEntries'',
                  props = [(''tree_id'', JNum 0), (''entries'', JArr [JStr ''z.txt''])]\<rparr>,
                 \<lparr>type = ''FileIdForPath'',
                  props = [(''tree_id'', JNum 0), (''path'', JStr ''a.txt'')]\<rparr>,
                 \<lparr>type = ''OpenTextFile'',
                  props = [(''tree_id'', JNum 0), (''file_id'', JStr ''a.txt''),
                           (''base_text'', JStr ''new:a.txt'')]\<rparr>,
                 \<lparr>type = ''FileIdForPath'',
                  props = [(''tree_id'', JNum 0), (''path'', JStr ''b.txt'')]\<rparr>,
                 \<lparr>type = ''OpenTextFile'',
                  props = [(''tree_id'', JNum 0), (''file_id'', JStr ''b.txt''),
                           (''base_text'', JStr ''new:b.txt'')]\<rparr>],
              rootFileId = Undefined\<rparr>)"
  apply (simp add: reset_def reset_begin_def reset_build_def constructor_def project_request
      appendBaseEntries_def stmt_def loop_start_def
      example_outside_def example_server_def example_this_def example_io_def start_def get_def)
  apply (subst reset_loop.simps)
  apply (simp add: example_server_def example_io_def opens_def
      reset_path_def fileIdForPath_def openTextFile_def project_request get_def)
  apply (subst reset_loop.simps)
  apply (simp add: example_server_def example_io_def opens_def
      reset_path_def fileIdForPath_def openTextFile_def project_request get_def)
  apply (subst reset_loop.simps)
  apply (simp add: example_server_def example_io_def reset_finish_def opens_def
      reset_path_def fileIdForPath_def openTextFile_def project_request get_def)
  done

lemma init_example:
  "init example_outside example_server (example_tree 0) ''new'' start
     = (None, [JArr [JStr ''epoch new''], JArr [], JArr []],
        \<lparr>sent =
           [\<lparr>type = ''AppendBaseEntries'',
             props = [(''tree_id'', JNum 0), (''entries'', JArr [JStr ''a.txt''])]\<rparr>,
            \<lparr>type = ''AppendBaseEntries'',
             props = [(''tree_id'', JNum 0), (''entries'', JArr [JStr ''b.txt''])]\<rparr>],
         rootFileId = Undefined\<rparr>)"
  by (simp add: init_def appendBaseEntries_def project_request
      example_outside_def example_server_def example_tree_def example_io_def start_def get_def)

text \<open>Whatever \<^verbatim>\<open>newHead\<close> is: where nothing binds \<^verbatim>\<open>head\<close>, a reset that gets
  its new tree throws before it appends anything.\<close>

lemma reset_unbound_head:
  assumes "head out = None"
    and "constructor server (replicaId this) (io this) w = (Inr newTree, w1)"
  shows "reset out server this newHead w
           = Some (Inl (ReferenceError ''head''),
                   this\<lparr>nextResetId := Some (pre_incr (to_number (nextResetId this)))\<rparr>, w1)"
  using assms by (simp add: reset_def reset_begin_def reset_build_def Let_def)

text \<open>
  C2. The claim: \<^verbatim>\<open>reset(newHead)\<close> streams the base entries of \<^verbatim>\<open>newHead\<close> into
  the new tree. The code asks the provider for \<^verbatim>\<open>getBaseEntries(head)\<close>, and
  \<^verbatim>\<open>head\<close> is not the parameter of \<^verbatim>\<open>reset\<close>. On \<^verbatim>\<open>reset("new")\<close>, with a
  provider that has two batches for \<^verbatim>\<open>"new"\<close>:
  \<^item> where nothing binds \<^verbatim>\<open>head\<close> (the file itself binds it nowhere), the call
    throws a \<^verbatim>\<open>ReferenceError\<close> right after the new tree is created, and no batch is
    appended;
  \<^item> where the enclosing scope binds \<^verbatim>\<open>head\<close> to \<^verbatim>\<open>"old"\<close>, the one batch of
    \<^verbatim>\<open>"old"\<close> is appended, and neither batch of \<^verbatim>\<open>"new"\<close>.
  \<^verbatim>\<open>init("new")\<close>, whose parameter is named \<^verbatim>\<open>head\<close>, appends the two batches of
  \<^verbatim>\<open>"new"\<close>.
\<close>

theorem reset_streams_head_not_newHead:
  "io_getBaseEntries example_io ''new'' = [JArr [JStr ''a.txt''], JArr [JStr ''b.txt'']]
   \<and> (\<exists>this' w'.
        reset (example_outside\<lparr>head := None\<rparr>) example_server example_this ''new'' start
          = Some (Inl (ReferenceError ''head''), this', w')
        \<and> filter (\<lambda>m. type m = ''AppendBaseEntries'') (sent w') = [])
   \<and> (\<exists>r this' w'.
        reset example_outside example_server example_this ''new'' start = Some (r, this', w')
        \<and> map (\<lambda>m. get m ''entries'') (filter (\<lambda>m. type m = ''AppendBaseEntries'') (sent w'))
            = io_getBaseEntries example_io ''old''
        \<and> map (\<lambda>m. get m ''entries'') (filter (\<lambda>m. type m = ''AppendBaseEntries'') (sent w'))
            \<noteq> io_getBaseEntries example_io ''new'')
   \<and> (\<exists>e ys w'.
        init example_outside example_server (example_tree 0) ''new'' start = (e, ys, w')
        \<and> map (\<lambda>m. get m ''entries'') (filter (\<lambda>m. type m = ''AppendBaseEntries'') (sent w'))
            = io_getBaseEntries example_io ''new'')"
  by (simp add: reset_example_unbound reset_example init_example example_io_def get_def)

section \<open>reset: the loop over the unsaved paths\<close>







section \<open>reset: the reset id\<close>

text \<open>A \<^verbatim>\<open>reset\<close> that nothing overlaps is the run \<open>Begin\<close>, its middle stretch,
  \<open>Finish 0\<close>.\<close>

lemma reset_as_run:
  assumes "reset_build out server (snd (reset_begin this)) newHead w = Some (Inr newTree, w1)"
  shows "reset out server this newHead w =
           (let s = run out \<lparr>orch = this, wld = w, stamps = [], returned = []\<rparr>
                      [Begin, Meanwhile (\<lambda>_. w1), Finish 0 newTree newHead]
            in Some (snd (last (returned s)), orch s, wld s))"
  using assms
  by (simp add: reset_def run_def reset_begin_def Let_def split: prod.splits)

text \<open>An id that is \<^verbatim>\<open>NaN\<close> never passes the final \<^verbatim>\<open>if\<close>, whatever the
  receiver holds by then.\<close>

lemma reset_finish_NaN:
  "reset_finish out NaN newTree newHead this w = (Inr (JArr []), this, w)"
  by (simp add: reset_finish_def)

text \<open>
  Where the counter holds an integer \<open>c\<close> and the next two ids are within the range a
  double counts in, two resets begun one after the other get \<open>c + 1\<close> and \<open>c + 2\<close>, the
  first returns the empty list and leaves the receiver as it is, and the second installs
  its tree: the stamp and the guard do what they are for once the counter is a number.
\<close>

lemma reset_guard_counter_set:
  assumes "nextResetId this = Some (Whole c)" and "- (2 ^ 53) \<le> c + 1" and "c + 2 \<le> 2 ^ 53"
  shows "fst (reset_begin this) = Whole (c + 1)"
    and "fst (reset_begin (snd (reset_begin this))) = Whole (c + 2)"
    and "js_less (fst (reset_begin this)) (fst (reset_begin (snd (reset_begin this))))"
    and "reset_finish out (fst (reset_begin this)) newTree newHead
           (snd (reset_begin (snd (reset_begin this)))) w
         = (Inr (JArr []), snd (reset_begin (snd (reset_begin this))), w)"
    and "reset_finish out (fst (reset_begin (snd (reset_begin this)))) newTree newHead
           (snd (reset_begin (snd (reset_begin this)))) w
         = (case startEpoch out newTree newHead
                  (Some (tree (snd (reset_begin (snd (reset_begin this)))))) w of
              (Inl e, w') \<Rightarrow> (Inl e, snd (reset_begin (snd (reset_begin this))), w')
            | (Inr ops, w') \<Rightarrow>
                (Inr ops, (snd (reset_begin (snd (reset_begin this))))\<lparr>id' := id' newTree\<rparr>, w'))"
  using assms
  by (simp_all add: reset_begin_def reset_finish_def double_succ_def Let_def
      split: prod.splits sum.splits)

text \<open>At \<open>2^53\<close> the double stops counting: the next id is the same number again.\<close>

lemma double_succ_stalls: "double_succ (2 ^ 53) = 2 ^ 53"
  by (simp add: double_succ_def)

lemma reset_guard_counter_stalls:
  assumes "nextResetId this = Some (Whole (2 ^ 53 - 1))"
  shows "fst (reset_begin this) = Whole (2 ^ 53)"
    and "fst (reset_begin (snd (reset_begin this))) = Whole (2 ^ 53)"
    and "js_eq (fst (reset_begin this)) (nextResetId (snd (reset_begin (snd (reset_begin this)))))"
  using assms
  by (simp_all add: reset_begin_def double_succ_def Let_def)

text \<open>
  C3. The claim: each invocation of \<^verbatim>\<open>reset\<close> is stamped with a strictly larger
  reset id than all earlier ones, a reset that a newer one has overtaken returns the empty
  list, and the latest reset installs its result. The file never assigns
  \<^verbatim>\<open>this.nextResetId\<close> but in \<^verbatim>\<open>++this.nextResetId\<close>, so on a receiver as the
  constructor leaves it the member is unset:
  \<^item> two resets begun on it are both stamped \<^verbatim>\<open>NaN\<close>, and \<^verbatim>\<open>NaN < NaN\<close> is
    false: the second id is not larger than the first;
  \<^item> the reset begun last, reaching its final \<^verbatim>\<open>if\<close>, compares
    \<^verbatim>\<open>NaN == NaN\<close>, which is false: it returns the empty list and the receiver keeps
    its old handle;
  \<^item> run as a whole on that receiver, \<^verbatim>\<open>reset("new")\<close> stamps \<^verbatim>\<open>NaN\<close> and, with
    \<^verbatim>\<open>head\<close> bound nowhere, throws before it reaches the final \<^verbatim>\<open>if\<close>;
  \<^item> on the example receiver (counter unset, \<^verbatim>\<open>head\<close> bound, the other members in
    place) a single \<^verbatim>\<open>reset("new")\<close>, which no newer reset follows, builds its tree,
    returns the empty list and leaves the handle 0 in place.
\<close>

theorem reset_ids_unset_counter:
  "nextResetId (constructed (example_tree 0)) = None
   \<and> stamps (run example_outside
               \<lparr>orch = constructed (example_tree 0), wld = start, stamps = [], returned = []\<rparr>
               [Begin, Begin]) = [NaN, NaN]
   \<and> \<not> js_less NaN NaN
   \<and> step example_outside
         (run example_outside
            \<lparr>orch = constructed (example_tree 0), wld = start, stamps = [], returned = []\<rparr>
            [Begin, Begin])
         (Finish 1 (example_tree 6) ''newer'')
       = \<lparr>orch = (constructed (example_tree 0))\<lparr>nextResetId := Some NaN\<rparr>, wld = start,
          stamps = [NaN, NaN], returned = [(1, Inr (JArr []))]\<rparr>
   \<and> id' ((constructed (example_tree 0))\<lparr>nextResetId := Some NaN\<rparr>) = JNum 0
   \<and> reset (example_outside\<lparr>head := None\<rparr>) example_server (constructed (example_tree 0))
         ''new'' start
       = Some (Inl (ReferenceError ''head''),
               (constructed (example_tree 0))\<lparr>nextResetId := Some NaN\<rparr>,
               \<lparr>sent = [\<lparr>type = ''CreateWorkTree'', props = [(''replica_id'', JNum 1)]\<rparr>],
                rootFileId = Undefined\<rparr>)
   \<and> (\<exists>w'. reset example_outside example_server example_this ''new'' start
              = Some (Inr (JArr []), example_this\<lparr>nextResetId := Some NaN\<rparr>, w'))
   \<and> id' (example_this\<lparr>nextResetId := Some NaN\<rparr>) = JNum 0"
proof -
  have stamps: "run example_outside
            \<lparr>orch = constructed (example_tree 0), wld = start, stamps = [], returned = []\<rparr>
            [Begin, Begin]
          = \<lparr>orch = (constructed (example_tree 0))\<lparr>nextResetId := Some NaN\<rparr>, wld = start,
             stamps = [NaN, NaN], returned = []\<rparr>"
    by (simp add: run_def reset_begin_def constructed_def Let_def)
  have latest: "step example_outside
         \<lparr>orch = (constructed (example_tree 0))\<lparr>nextResetId := Some NaN\<rparr>, wld = start,
          stamps = [NaN, NaN], returned = []\<rparr>
         (Finish 1 (example_tree 6) ''newer'')
       = \<lparr>orch = (constructed (example_tree 0))\<lparr>nextResetId := Some NaN\<rparr>, wld = start,
          stamps = [NaN, NaN], returned = [(1, Inr (JArr []))]\<rparr>"
    by (simp add: reset_finish_NaN)
  have whole: "reset (example_outside\<lparr>head := None\<rparr>) example_server
         (constructed (example_tree 0)) ''new'' start
       = Some (Inl (ReferenceError ''head''),
               (constructed (example_tree 0))\<lparr>nextResetId := Some NaN\<rparr>,
               \<lparr>sent = [\<lparr>type = ''CreateWorkTree'', props = [(''replica_id'', JNum 1)]\<rparr>],
                rootFileId = Undefined\<rparr>)"
    by (simp add: reset_def reset_begin_def reset_build_def constructor_def project_request
        constructed_def example_tree_def example_outside_def example_server_def start_def
        get_def Let_def)
  have ids: "nextResetId (constructed (example_tree 0)) = None"
    "id' ((constructed (example_tree 0))\<lparr>nextResetId := Some NaN\<rparr>) = JNum 0"
    "id' (example_this\<lparr>nextResetId := Some NaN\<rparr>) = JNum 0"
    by (simp_all add: constructed_def example_tree_def example_this_def)
  show ?thesis
    unfolding stamps latest whole reset_example using ids by simp
qed


end
